theory Spec2Isabelle
  imports Main "HOL-Library.Monad_Syntax" "HOL-Library.Multiset"
begin

text \<open>
  A model of \<open>main.py\<close>, the news search server: the retry wrapper around the HTTP
  client, the publisher and date normalizers, the article extractor, and the three search
  tools.  Exceptions are values (\<open>Inl\<close>), the network is a function from a request and
  an attempt number to what the client yields, and every function that touches the
  network returns the requests and sleeps it made next to its result.  The libraries
  (httpx, BeautifulSoup, \<open>re\<close>, \<open>datetime\<close>, \<open>urlparse\<close>) are modelled as far as
  the code uses them, or taken as parameters.  Logging and \<open>ctx.info\<close> are left out.
\<close>

section \<open>Python strings\<close>

text \<open>
  A Python \<open>str\<close> is a sequence of Unicode code points, and \<open>len\<close>, slicing and
  \<open>in\<close> count code points.  The model is a list of code points; the Korean literals
  of the source are written out as code points, ASCII runs through \<open>u\<close>.
\<close>

type_synonym pystr = "nat list"

definition u :: "string \<Rightarrow> pystr" where
  "u s = map of_char s"

text \<open>
  \<open>str.isspace\<close> for one character: the predicate behind \<open>str.strip()\<close> and behind
  \<open>\s\<close> in a \<open>str\<close> pattern of \<open>re\<close>.
\<close>

definition py_isspace :: "nat \<Rightarrow> bool" where
  "py_isspace c \<longleftrightarrow>
     (9 \<le> c \<and> c \<le> 13) \<or> (28 \<le> c \<and> c \<le> 32) \<or> c = 133 \<or> c = 160 \<or> c = 5760 \<or>
     (8192 \<le> c \<and> c \<le> 8202) \<or> c = 8232 \<or> c = 8233 \<or> c = 8239 \<or> c = 8287 \<or>
     c = 12288"

definition py_lstrip :: "pystr \<Rightarrow> pystr" where
  "py_lstrip s = dropWhile py_isspace s"

definition py_rstrip :: "pystr \<Rightarrow> pystr" where
  "py_rstrip s = rev (dropWhile py_isspace (rev s))"

definition py_strip :: "pystr \<Rightarrow> pystr" where
  "py_strip s = py_rstrip (py_lstrip s)"

text \<open>\<open>sub in s\<close> on strings.\<close>

fun py_contains :: "pystr \<Rightarrow> pystr \<Rightarrow> bool" where
  "py_contains sub [] = (sub = [])"
| "py_contains sub (c # cs) = (take (length sub) (c # cs) = sub \<or> py_contains sub cs)"

text \<open>
  \<open>s.split(sep)\<close>: the pieces between the occurrences of \<open>sep\<close>, found from the
  left without overlap.  Python raises \<open>ValueError\<close> on an empty separator; the source
  only passes literals, so the model returns no piece at all there.
\<close>

function py_split :: "pystr \<Rightarrow> pystr \<Rightarrow> pystr list" where
  "py_split sep s =
     (if sep = [] then []
      else if take (length sep) s = sep then [] # py_split sep (drop (length sep) s)
      else (case s of
              [] \<Rightarrow> [[]]
            | c # cs \<Rightarrow> (case py_split sep cs of
                          [] \<Rightarrow> [[c]]
                        | p # ps \<Rightarrow> (c # p) # ps)))"
  by pat_completeness auto
termination
proof (relation "measure (\<lambda>(sep, s). length s)")
  fix sep s :: pystr
  assume "sep \<noteq> []" and eq: "take (length sep) s = sep"
  from eq have "length (take (length sep) s) = length sep"
    by simp
  then have "length sep \<le> length s"
    by simp
  with \<open>sep \<noteq> []\<close>
  show "((sep, drop (length sep) s), (sep, s)) \<in> measure (\<lambda>(sep, s). length s)"
    by (cases sep) auto
qed auto

text \<open>\<open>s.replace(old, new)\<close>, every occurrence from the left without overlap.\<close>

function py_replace :: "pystr \<Rightarrow> pystr \<Rightarrow> pystr \<Rightarrow> pystr" where
  "py_replace old new s =
     (if old = [] then new @ concat (map (\<lambda>c. c # new) s)
      else if take (length old) s = old then new @ py_replace old new (drop (length old) s)
      else (case s of [] \<Rightarrow> [] | c # cs \<Rightarrow> c # py_replace old new cs))"
  by pat_completeness auto
termination
proof (relation "measure (\<lambda>(old, new, s). length s)")
  fix old new s :: pystr
  assume "old \<noteq> []" and eq: "take (length old) s = old"
  from eq have "length (take (length old) s) = length old"
    by simp
  then have "length old \<le> length s"
    by simp
  with \<open>old \<noteq> []\<close>
  show "((old, new, drop (length old) s), (old, new, s)) \<in> measure (\<lambda>(old, new, s). length s)"
    by (cases old) auto
qed auto

text \<open>\<open>sep.join(parts)\<close>.\<close>

fun py_join :: "pystr \<Rightarrow> pystr list \<Rightarrow> pystr" where
  "py_join sep [] = []"
| "py_join sep [p] = p"
| "py_join sep (p # q # ps) = p @ sep @ py_join sep (q # ps)"

text \<open>\<open>re.sub(r'\s+', ' ', s)\<close>: every maximal run of whitespace becomes one space.\<close>

function re_sub_ws :: "pystr \<Rightarrow> pystr" where
  "re_sub_ws [] = []"
| "re_sub_ws (c # cs) =
     (if py_isspace c then 32 # re_sub_ws (dropWhile py_isspace cs) else c # re_sub_ws cs)"
  by pat_completeness auto
termination
  by (relation "measure length") (auto simp: length_dropWhile_le less_Suc_eq_le)

text \<open>\<open>str(n)\<close> for an integer, as an f-string formats it.\<close>

function str_nat :: "nat \<Rightarrow> pystr" where
  "str_nat n = (if n < 10 then [48 + n] else str_nat (n div 10) @ [48 + n mod 10])"
  by pat_completeness auto
termination
  by (relation "measure id") auto

definition str_int :: "int \<Rightarrow> pystr" where
  "str_int i = (if i < 0 then 45 # str_nat (nat (- i)) else str_nat (nat i))"

section \<open>Constants of the module\<close>

definition MAX_RETRIES :: int where
  "MAX_RETRIES = 3"

text \<open>Seconds; \<open>1.0\<close> in the source.\<close>

definition RETRY_DELAY :: nat where
  "RETRY_DELAY = 1"

definition MAX_NEWS_ITEMS :: int where
  "MAX_NEWS_ITEMS = 20"

definition MAX_CONTENT_LENGTH :: nat where
  "MAX_CONTENT_LENGTH = 1000"

section \<open>The HTTP client and \<open>make_request_with_retry\<close>\<close>

text \<open>
  The two header dictionaries are opaque: the first holds the API credentials read from
  the environment.
\<close>

datatype headers = NAVER_HEADERS | HTTP_HEADERS

record request =
  req_url :: pystr
  req_params :: "(pystr \<times> pystr) list"
  req_headers :: headers

text \<open>
  The upstream search response once decoded: either some JSON value that is not an object
  (only its Python type name is observed), or an object, of which the code reads the keys
  \<open>items\<close> and \<open>total\<close>.  An item is an object whose values are strings, as the
  upstream API sends them: a list of key and value pairs, each key once.
\<close>

type_synonym item = "(pystr \<times> pystr) list"

record search_dict =
  items :: "item list option"
  total :: "int option"

datatype search_data = NotDict pystr | Dict search_dict

text \<open>
  Exceptions, each with the text \<open>str(e)\<close> gives.  \<open>TimeoutException\<close> is a
  \<open>RequestError\<close> in httpx; a handler for it comes first wherever both are caught.
\<close>

datatype pyexn =
    TimeoutException pystr
  | HTTPStatusError int pystr
  | RequestError pystr
  | JSONDecodeError pystr
  | OtherException pystr

fun exn_str :: "pyexn \<Rightarrow> pystr" where
  "exn_str (TimeoutException m) = m"
| "exn_str (HTTPStatusError c m) = m"
| "exn_str (RequestError m) = m"
| "exn_str (JSONDecodeError m) = m"
| "exn_str (OtherException m) = m"

text \<open>
  A response object: what the code reads of it.  \<open>resp_text\<close> is
  \<open>response.text\<close>, \<open>json\<close> is the outcome of
  \<open>response.json()\<close>, \<open>status_error_text\<close> the message \<open>raise_for_status\<close> gives its
  exception.
\<close>

record response =
  status_code :: int
  resp_text :: pystr
  json :: "pyexn + search_data"
  status_error_text :: pystr

text \<open>
  The client with the network behind it: what the \<open>k\<close>-th \<open>get\<close> of one request
  yields, redirects already followed.  It returns a response or raises.
\<close>

type_synonym client = "request \<Rightarrow> nat \<Rightarrow> pyexn + response"

datatype event = Get request | Sleep nat

definition raise_for_status :: "response \<Rightarrow> pyexn + response" where
  "raise_for_status r =
     (if 200 \<le> status_code r \<and> status_code r \<le> 299 then Inr r
      else Inl (HTTPStatusError (status_code r) (status_error_text r)))"

text \<open>The body of the \<open>try\<close>: the request, then the status check.\<close>

definition attempt_get :: "client \<Rightarrow> request \<Rightarrow> nat \<Rightarrow> pyexn + response" where
  "attempt_get c req k = (case c req k of Inl e \<Rightarrow> Inl e | Inr r \<Rightarrow> raise_for_status r)"

text \<open>
  The three \<open>except\<close> clauses, in the source's order: does this failure at this attempt
  sleep and go round again?
\<close>

fun retry_after :: "pyexn \<Rightarrow> int \<Rightarrow> int \<Rightarrow> bool" where
  "retry_after (TimeoutException m) attempt max_retries = (attempt < max_retries - 1)"
| "retry_after (HTTPStatusError code m) attempt max_retries =
     ((code = 429 \<or> code \<ge> 500) \<and> attempt < max_retries - 1)"
| "retry_after e attempt max_retries = (attempt < max_retries - 1)"

text \<open>
  The \<open>for attempt in range(max_retries)\<close> loop from \<open>attempt\<close> on.  The result is
  what is returned or raised, with the requests and sleeps made.  A loop that runs out
  returns \<open>None\<close>.
\<close>

function retry_loop ::
  "client \<Rightarrow> request \<Rightarrow> int \<Rightarrow> int \<Rightarrow> (pyexn + response option) \<times> event list" where
  "retry_loop c req max_retries attempt =
     (if 0 \<le> attempt \<and> attempt < max_retries then
        (case attempt_get c req (nat attempt) of
           Inr r \<Rightarrow> (Inr (Some r), [Get req])
         | Inl e \<Rightarrow>
             if retry_after e attempt max_retries then
               (case retry_loop c req max_retries (attempt + 1) of
                  (res, evs) \<Rightarrow> (res, Get req # Sleep RETRY_DELAY # evs))
             else (Inl e, [Get req]))
      else (Inr None, []))"
  by pat_completeness auto
termination
  by (relation "measure (\<lambda>(c, req, max_retries, attempt). nat (max_retries - attempt))") auto

definition make_request_with_retry ::
  "client \<Rightarrow> request \<Rightarrow> int \<Rightarrow> (pyexn + response option) \<times> event list" where
  "make_request_with_retry c req max_retries = retry_loop c req max_retries 0"

text \<open>
  The failure classes that the retry policy speaks of: a timeout, a transport error, or
  an HTTP status of 429 or at least 500.  Every other HTTP status error is final.
\<close>

fun retryable :: "pyexn \<Rightarrow> bool" where
  "retryable (HTTPStatusError code m) = (code = 429 \<or> code \<ge> 500)"
| "retryable e = True"

text \<open>\<open>j\<close> failed attempts, each followed by the fixed sleep, then one more attempt.\<close>

definition attempts_trace :: "request \<Rightarrow> nat \<Rightarrow> event list" where
  "attempts_trace req j = concat (replicate j [Get req, Sleep RETRY_DELAY]) @ [Get req]"

text \<open>
  Simulated backends: a bare response with a given status, whose error text is the status
  code alone, and three clients.
\<close>

definition bare_response :: "int \<Rightarrow> response" where
  "bare_response code =
     \<lparr>status_code = code, resp_text = [], json = Inl (JSONDecodeError []),
      status_error_text = str_int code\<rparr>"

definition flaky_client :: client where
  "flaky_client req k = (if k < 2 then Inr (bare_response 503) else Inr (bare_response 200))"

definition not_found_client :: client where
  "not_found_client req k = Inr (bare_response 404)"

definition down_client :: client where
  "down_client req k =
     (if k = 0 then Inl (TimeoutException (u ''timed out'')) else Inr (bare_response 503))"

definition some_request :: request where
  "some_request =
     \<lparr>req_url = u ''http://example.com/a'', req_params = [], req_headers = HTTP_HEADERS\<rparr>"

section \<open>The result normalizer: \<open>extract_publisher\<close> and \<open>format_date\<close>\<close>

text \<open>\<open>d.get(key, default)\<close>.\<close>

definition dict_get :: "item \<Rightarrow> pystr \<Rightarrow> pystr \<Rightarrow> pystr" where
  "dict_get d k dflt = (case map_of d k of None \<Rightarrow> dflt | Some v \<Rightarrow> v)"

definition IndexError :: pyexn where
  "IndexError = OtherException (u ''list index out of range'')"

text \<open>\<open>xs[-1]\<close> and \<open>xs[1]\<close>, which raise outside the list.\<close>

definition index_last :: "'a list \<Rightarrow> pyexn + 'a" where
  "index_last xs = (case xs of [] \<Rightarrow> Inl IndexError | _ # _ \<Rightarrow> Inr (last xs))"

definition index_1 :: "'a list \<Rightarrow> pyexn + 'a" where
  "index_1 xs = (case xs of _ # x # _ \<Rightarrow> Inr x | _ \<Rightarrow> Inl IndexError)"

text \<open>The source marker of a description: U+CD9C U+CC98, space, colon, space.\<close>

definition SOURCE_MARKER :: pystr where
  "SOURCE_MARKER = [52636, 52376] @ u '' : ''"

text \<open>The sentinel for an unknown publisher.\<close>

definition UNKNOWN_PUBLISHER :: pystr where
  "UNKNOWN_PUBLISHER = [50508, 32, 49688, 32, 50630, 45716, 32, 50616, 47200, 49324]"

text \<open>
  \<open>extract_publisher\<close>.  \<open>netloc\<close> stands for \<open>urlparse(link).netloc\<close> of the
  standard library, taken as a parameter; on the links that the upstream API sends it
  returns a string.
\<close>

definition extract_publisher :: "(pystr \<Rightarrow> pystr) \<Rightarrow> item \<Rightarrow> pyexn + pystr" where
  "extract_publisher netloc it =
     (let title = dict_get it (u ''title'') [];
          description = dict_get it (u ''description'') []
      in if py_contains (u '' - '') title then
           (case index_last (py_split (u '' - '') title) of
              Inl e \<Rightarrow> Inl e
            | Inr p \<Rightarrow> Inr (py_strip p))
         else
           let link = dict_get it (u ''link'') []
           in if link \<noteq> [] then
                let domain = netloc link
                in if py_contains (u ''news.naver.com'') domain
                      \<and> py_contains SOURCE_MARKER description then
                     (case index_1 (py_split SOURCE_MARKER description) of
                        Inl e \<Rightarrow> Inl e
                      | Inr p \<Rightarrow> Inr (py_strip p))
                   else Inr (py_replace (u ''www.'') [] domain)
              else Inr UNKNOWN_PUBLISHER)"

subsection \<open>\<open>datetime.strptime\<close> and \<open>strftime\<close> for the two fixed formats\<close>

text \<open>
  \<open>strptime(s, '%a, %d %b %Y %H:%M:%S %z')\<close> in the C locale, on ASCII letters and
  digits: the weekday and month names match without regard to case, every blank of the
  format matches one or more whitespace characters, and the whole string must be used.
  The weekday is not checked against the date; the date must exist, the second must be
  below 60 and the zone below 24 hours.  The zone is read and checked, but \<open>strftime\<close>
  prints the wall-clock fields as parsed.
\<close>

record datetime =
  year :: nat
  month :: nat
  day :: nat
  hour :: nat
  minute :: nat
  second :: nat

definition is_digit :: "nat \<Rightarrow> bool" where
  "is_digit c \<longleftrightarrow> 48 \<le> c \<and> c \<le> 57"

definition digits_val :: "pystr \<Rightarrow> nat" where
  "digits_val ds = foldl (\<lambda>a c. 10 * a + (c - 48)) 0 ds"

definition ascii_lower :: "nat \<Rightarrow> nat" where
  "ascii_lower c = (if 65 \<le> c \<and> c \<le> 90 then c + 32 else c)"

text \<open>One of the names, as a prefix: its position in the list (from \<open>k\<close>) and the rest.\<close>

fun parse_name :: "pystr list \<Rightarrow> nat \<Rightarrow> pystr \<Rightarrow> (nat \<times> pystr) option" where
  "parse_name [] k s = None"
| "parse_name (n # ns) k s =
     (if map ascii_lower (take (length n) s) = n then Some (k, drop (length n) s)
      else parse_name ns (Suc k) s)"

definition weekday_names :: "pystr list" where
  "weekday_names = map u [''mon'', ''tue'', ''wed'', ''thu'', ''fri'', ''sat'', ''sun'']"

definition month_names :: "pystr list" where
  "month_names = map u [''jan'', ''feb'', ''mar'', ''apr'', ''may'', ''jun'',
                        ''jul'', ''aug'', ''sep'', ''oct'', ''nov'', ''dec'']"

text \<open>
  A numeric field of one or two digits that a non-digit follows: the two-digit forms that
  the field's pattern admits, else the one-digit forms.
\<close>

definition parse_num ::
  "(nat \<Rightarrow> bool) \<Rightarrow> (nat \<Rightarrow> bool) \<Rightarrow> pystr \<Rightarrow> (nat \<times> pystr) option" where
  "parse_num ok2 ok1 s =
     (let ds = takeWhile is_digit s; v = digits_val ds
      in if length ds = 2 \<and> ok2 v then Some (v, drop 2 s)
         else if length ds = 1 \<and> ok1 v then Some (v, drop 1 s)
         else None)"

text \<open>\<open>%Y\<close>: exactly four digits.\<close>

definition parse_year :: "pystr \<Rightarrow> (nat \<times> pystr) option" where
  "parse_year s =
     (let ds = takeWhile is_digit s
      in if length ds = 4 then Some (digits_val ds, drop 4 s) else None)"

text \<open>One or more whitespace characters.\<close>

definition parse_ws :: "pystr \<Rightarrow> pystr option" where
  "parse_ws s =
     (case s of [] \<Rightarrow> None
      | c # cs \<Rightarrow> if py_isspace c then Some (dropWhile py_isspace cs) else None)"

definition parse_char :: "nat \<Rightarrow> pystr \<Rightarrow> pystr option" where
  "parse_char c s = (case s of [] \<Rightarrow> None | d # ds \<Rightarrow> if d = c then Some ds else None)"

text \<open>
  \<open>%z\<close> up to the end of the string: \<open>Z\<close>, or a sign, two digits of hours and
  minutes, then optionally seconds and a fraction of one to six digits, with colons
  everywhere or nowhere; the offset must stay below 24 hours.
\<close>

definition two_digits_60 :: "pystr \<Rightarrow> bool" where
  "two_digits_60 p = (case p of [a, b] \<Rightarrow> 48 \<le> a \<and> a \<le> 53 \<and> is_digit b | _ \<Rightarrow> False)"

definition tz_fraction :: "pystr \<Rightarrow> bool" where
  "tz_fraction f =
     (case f of [] \<Rightarrow> True
      | d # ds \<Rightarrow> d = 46 \<and> 1 \<le> length ds \<and> length ds \<le> 6 \<and> list_all is_digit ds)"

definition tz_rest :: "pystr \<Rightarrow> bool" where
  "tz_rest r =
     (case r of
        [] \<Rightarrow> False
      | c # cs \<Rightarrow>
          if c = 58 then
            two_digits_60 (take 2 cs) \<and>
            (drop 2 cs = [] \<or>
             (take 1 (drop 2 cs) = [58] \<and> two_digits_60 (take 2 (drop 3 cs))
              \<and> tz_fraction (drop 5 cs)))
          else
            two_digits_60 (take 2 r) \<and>
            (drop 2 r = [] \<or> (two_digits_60 (take 2 (drop 2 r)) \<and> tz_fraction (drop 4 r))))"

definition parse_tz :: "pystr \<Rightarrow> bool" where
  "parse_tz s =
     (s = u ''Z'' \<or>
      (case s of
         sg # h1 # h2 # r \<Rightarrow>
           (sg = 43 \<or> sg = 45) \<and> is_digit h1 \<and> is_digit h2 \<and> digits_val [h1, h2] \<le> 23
           \<and> tz_rest r
       | _ \<Rightarrow> False))"

definition is_leap :: "nat \<Rightarrow> bool" where
  "is_leap y \<longleftrightarrow> y mod 4 = 0 \<and> (y mod 100 \<noteq> 0 \<or> y mod 400 = 0)"

definition days_in_month :: "nat \<Rightarrow> nat \<Rightarrow> nat" where
  "days_in_month y m =
     (if m = 2 then (if is_leap y then 29 else 28)
      else if m = 4 \<or> m = 6 \<or> m = 9 \<or> m = 11 then 30 else 31)"

definition strptime :: "pystr \<Rightarrow> datetime option" where
  "strptime s = do {
     (wd, s1) \<leftarrow> parse_name weekday_names 0 s;
     s2 \<leftarrow> parse_char 44 s1;
     s3 \<leftarrow> parse_ws s2;
     (d, s4) \<leftarrow> parse_num (\<lambda>v. 1 \<le> v \<and> v \<le> 31) (\<lambda>v. 1 \<le> v) s3;
     s5 \<leftarrow> parse_ws s4;
     (mo, s6) \<leftarrow> parse_name month_names 1 s5;
     s7 \<leftarrow> parse_ws s6;
     (y, s8) \<leftarrow> parse_year s7;
     s9 \<leftarrow> parse_ws s8;
     (h, s10) \<leftarrow> parse_num (\<lambda>v. v \<le> 23) (\<lambda>v. True) s9;
     s11 \<leftarrow> parse_char 58 s10;
     (mi, s12) \<leftarrow> parse_num (\<lambda>v. v \<le> 59) (\<lambda>v. True) s11;
     s13 \<leftarrow> parse_char 58 s12;
     (sec, s14) \<leftarrow> parse_num (\<lambda>v. v \<le> 61) (\<lambda>v. True) s13;
     s15 \<leftarrow> parse_ws s14;
     if parse_tz s15 \<and> 1 \<le> y \<and> d \<le> days_in_month y mo \<and> sec \<le> 59
     then Some \<lparr>year = y, month = mo, day = d, hour = h, minute = mi, second = sec\<rparr>
     else None
   }"

text \<open>A number padded with zeros to a width, and \<open>strftime('%Y-%m-%d %H:%M')\<close>.\<close>

definition zpad :: "nat \<Rightarrow> nat \<Rightarrow> pystr" where
  "zpad w n = replicate (w - length (str_nat n)) 48 @ str_nat n"

definition strftime :: "datetime \<Rightarrow> pystr" where
  "strftime dt =
     zpad 4 (year dt) @ [45] @ zpad 2 (month dt) @ [45] @ zpad 2 (day dt) @ [32] @
     zpad 2 (hour dt) @ [58] @ zpad 2 (minute dt)"

text \<open>\<open>format_date\<close>: the \<open>except\<close> clause returns the argument as it came.\<close>

definition format_date :: "pystr \<Rightarrow> pystr" where
  "format_date date_str =
     (case strptime date_str of
        Some dt \<Rightarrow> strftime dt
      | None \<Rightarrow> date_str)"

section \<open>The content extractor\<close>

subsection \<open>The parsed document\<close>

text \<open>
  The tree that \<open>BeautifulSoup(html, 'html.parser')\<close> builds: elements with a
  lower-case name, attributes and children, and the strings that \<open>get_text\<close> collects.
  Comments and the like, which \<open>get_text\<close> skips, are left out.
\<close>

datatype node = Text pystr | Element pystr "(pystr \<times> pystr) list" "node list"

text \<open>
  The selectors of the source are comma-separated lists of a tag name, an \<open>#id\<close> or a
  \<open>.class\<close>.
\<close>

datatype simple_selector = Tag pystr | Id pystr | Class pystr

type_synonym selector = "simple_selector list"

text \<open>The words of a \<open>class\<close> attribute: its value between runs of whitespace.\<close>

fun words_from :: "pystr \<Rightarrow> pystr \<Rightarrow> pystr list" where
  "words_from acc [] = (if acc = [] then [] else [rev acc])"
| "words_from acc (c # cs) =
     (if py_isspace c then (if acc = [] then words_from [] cs else rev acc # words_from [] cs)
      else words_from (c # acc) cs)"

fun matches_simple :: "simple_selector \<Rightarrow> pystr \<Rightarrow> (pystr \<times> pystr) list \<Rightarrow> bool" where
  "matches_simple (Tag t) name attrs = (name = t)"
| "matches_simple (Id i) name attrs = (map_of attrs (u ''id'') = Some i)"
| "matches_simple (Class c) name attrs =
     (case map_of attrs (u ''class'') of
        None \<Rightarrow> False
      | Some v \<Rightarrow> c \<in> set (words_from [] v))"

definition matches :: "selector \<Rightarrow> pystr \<Rightarrow> (pystr \<times> pystr) list \<Rightarrow> bool" where
  "matches sel name attrs = list_ex (\<lambda>s. matches_simple s name attrs) sel"

text \<open>
  \<open>select(sel)\<close> on the document or on an element: the matching elements among the
  given children and below them, in document order.  \<open>select_one\<close> is the first.
\<close>

fun select_node :: "selector \<Rightarrow> node \<Rightarrow> node list"
  and select_nodes :: "selector \<Rightarrow> node list \<Rightarrow> node list" where
  "select_node sel (Text t) = []"
| "select_node sel (Element name attrs children) =
     (if matches sel name attrs then [Element name attrs children] else [])
     @ select_nodes sel children"
| "select_nodes sel [] = []"
| "select_nodes sel (n # ns) = select_node sel n @ select_nodes sel ns"

definition select_one :: "selector \<Rightarrow> node list \<Rightarrow> node option" where
  "select_one sel ns = (case select_nodes sel ns of [] \<Rightarrow> None | e # _ \<Rightarrow> Some e)"

text \<open>
  \<open>for element in e.select(sel): element.extract()\<close>: every matching element below
  \<open>e\<close> leaves the tree with all that is under it.
\<close>

fun extract_node :: "selector \<Rightarrow> node \<Rightarrow> node list"
  and extract_nodes :: "selector \<Rightarrow> node list \<Rightarrow> node list" where
  "extract_node sel (Text t) = [Text t]"
| "extract_node sel (Element name attrs children) =
     (if matches sel name attrs then [] else [Element name attrs (extract_nodes sel children)])"
| "extract_nodes sel [] = []"
| "extract_nodes sel (n # ns) = extract_node sel n @ extract_nodes sel ns"

text \<open>
  \<open>get_text(strip=True)\<close>: the strings in document order, each stripped, the empty ones
  dropped, joined with nothing between them.
\<close>

fun get_text :: "node \<Rightarrow> pystr"
  and get_texts :: "node list \<Rightarrow> pystr" where
  "get_text (Text t) = py_strip t"
| "get_text (Element name attrs children) = get_texts children"
| "get_texts [] = []"
| "get_texts (n # ns) = get_text n @ get_texts ns"

fun children_of :: "node \<Rightarrow> node list" where
  "children_of (Text t) = []"
| "children_of (Element name attrs children) = children"

subsection \<open>\<open>extract_article_content\<close>\<close>

definition NAVER_BODY :: selector where
  "NAVER_BODY = [Id (u ''articleBodyContents''), Id (u ''articeBody''),
                 Id (u ''newsEndContents''), Class (u ''news_end'')]"

definition NAVER_NOISE :: selector where
  "NAVER_NOISE = [Tag (u ''script''), Tag (u ''style''), Class (u ''end_photo_org''),
                  Class (u ''reporter_area'')]"

definition GENERIC_CONTAINERS :: selector where
  "GENERIC_CONTAINERS = [Tag (u ''article''), Tag (u ''main''), Class (u ''article''),
                         Class (u ''content''), Class (u ''news-content'')]"

definition PARAGRAPHS :: selector where
  "PARAGRAPHS = [Tag (u ''p'')]"

text \<open>The sentinel of line 178: the body cannot be extracted.\<close>

definition NOT_EXTRACTABLE :: pystr where
  "NOT_EXTRACTABLE =
     [48376, 47928, 32, 45236, 50857, 51012, 32, 52628, 52636, 54624, 32, 49688, 32, 50630,
     49845, 45768, 45796, 46]"

text \<open>The prefix of line 182: extraction failed, before the error's text.\<close>

definition EXTRACTION_FAILED :: pystr where
  "EXTRACTION_FAILED =
     [44592, 49324, 32, 45236, 50857, 32, 52628, 52636, 32, 49892, 54056, 58, 32]"

text \<open>
  The two lines that follow each strategy (160 and 161, 168 and 169, 175 and 176):
  \<open>re.sub(r'\s+', ' ', content).strip()\<close>, then the cut with its marker.
\<close>

definition normalize_ws :: "pystr \<Rightarrow> pystr" where
  "normalize_ws content = py_strip (re_sub_ws content)"

definition TRUNCATION_MARKER :: pystr where
  "TRUNCATION_MARKER = u ''...''"

definition truncate_content :: "pystr \<Rightarrow> pystr" where
  "truncate_content content =
     take MAX_CONTENT_LENGTH content
     @ (if length content > MAX_CONTENT_LENGTH then TRUNCATION_MARKER else [])"

text \<open>
  The three strategies, each the text it takes from the document before those two lines,
  or \<open>None\<close> when its \<open>if\<close> does not hold.
\<close>

definition naver_text :: "pystr \<Rightarrow> node list \<Rightarrow> pystr option" where
  "naver_text url soup =
     (if py_contains (u ''news.naver.com'') url then
        (case select_one NAVER_BODY soup of
           None \<Rightarrow> None
         | Some content_element \<Rightarrow>
             Some (get_texts (extract_nodes NAVER_NOISE (children_of content_element))))
      else None)"

definition container_text :: "node list \<Rightarrow> pystr option" where
  "container_text soup =
     (case select_nodes GENERIC_CONTAINERS soup of
        [] \<Rightarrow> None
      | e # _ \<Rightarrow> Some (get_text e))"

definition paragraph_text :: "node list \<Rightarrow> pystr option" where
  "paragraph_text soup =
     (case select_nodes PARAGRAPHS soup of
        [] \<Rightarrow> None
      | p # ps \<Rightarrow>
          Some (py_join [32] (filter (\<lambda>t. length t > 50) (map get_text (p # ps)))))"

text \<open>Lines 149 to 178: the document is parsed, the cascade runs.\<close>

definition extract_from_soup :: "pystr \<Rightarrow> node list \<Rightarrow> pystr" where
  "extract_from_soup url soup =
     (case naver_text url soup of
        Some content \<Rightarrow> truncate_content (normalize_ws content)
      | None \<Rightarrow>
          (case container_text soup of
             Some content \<Rightarrow> truncate_content (normalize_ws content)
           | None \<Rightarrow>
               (case paragraph_text soup of
                  Some content \<Rightarrow> truncate_content (normalize_ws content)
                | None \<Rightarrow> NOT_EXTRACTABLE)))"

definition NoneType_has_no :: "pystr \<Rightarrow> pyexn" where
  "NoneType_has_no attr =
     OtherException ([39] @ u ''NoneType'' @ [39] @ u '' object has no attribute ''
                     @ [39] @ attr @ [39])"

text \<open>
  \<open>extract_article_content\<close>, with the parser \<open>BeautifulSoup(_, 'html.parser')\<close> as a
  parameter.  Whatever is raised inside becomes the text of the content.
\<close>

definition extract_article_content ::
  "(pystr \<Rightarrow> pyexn + node list) \<Rightarrow> client \<Rightarrow> pystr \<Rightarrow> pystr \<times> event list" where
  "extract_article_content parser c link =
     (case make_request_with_retry c \<lparr>req_url = link, req_params = [], req_headers = HTTP_HEADERS\<rparr>
             MAX_RETRIES of
        (Inl e, evs) \<Rightarrow> (EXTRACTION_FAILED @ exn_str e, evs)
      | (Inr None, evs) \<Rightarrow> (EXTRACTION_FAILED @ exn_str (NoneType_has_no (u ''text'')), evs)
      | (Inr (Some response), evs) \<Rightarrow>
          (case parser (resp_text response) of
             Inl e \<Rightarrow> (EXTRACTION_FAILED @ exn_str e, evs)
           | Inr soup \<Rightarrow> (extract_from_soup link soup, evs)))"

section \<open>The tools\<close>

text \<open>Lines 196 and 326: please enter a search term.\<close>

definition ENTER_KEYWORD :: pystr where
  "ENTER_KEYWORD =
     [44160, 49353, 50612, 47484, 32, 51077, 47141, 54644, 51452, 49464, 50836, 46]"

definition SEARCH_URL :: pystr where
  "SEARCH_URL =
     u ''https://openapi.naver.com/v1/search/news.json''"

text \<open>
  The common start of lines 227, 232 and 236: an error occurred while processing the
  search results.
\<close>

definition COULD_NOT_PROCESS :: pystr where
  "COULD_NOT_PROCESS =
     [44160, 49353, 32, 44208, 44284, 47484, 32, 52376, 47532, 54616, 45716, 32, 51473, 32,
     50724, 47448, 44032, 32, 48156, 49373, 54664, 49845, 45768, 45796, 58, 32]"

text \<open>Line 227: wrong response format.\<close>

definition BAD_RESPONSE_FORMAT :: pystr where
  "BAD_RESPONSE_FORMAT =
     [51096, 47803, 46108, 32, 51025, 45813, 32, 54805, 49885]"

text \<open>Line 232: unexpected response format.\<close>

definition UNEXPECTED_RESPONSE_FORMAT :: pystr where
  "UNEXPECTED_RESPONSE_FORMAT =
     [50696, 49345, 52824, 32, 47803, 54620, 32, 51025, 45813, 32, 54805, 49885]"

text \<open>Line 236: no items found.\<close>

definition ITEMS_NOT_FOUND :: pystr where
  "ITEMS_NOT_FOUND =
     [54637, 47785, 51012, 32, 52286, 51012, 32, 49688, 32, 50630, 51020]"

text \<open>
  Lines 239 and 355, after the quoted keyword: there are no search results for it.
\<close>

definition NO_RESULTS_TAIL :: pystr where
  "NO_RESULTS_TAIL =
     [39, 50640, 32, 45824, 54620, 32, 44160, 49353, 32, 44208, 44284, 44032, 32, 50630,
     49845, 45768, 45796, 46]"

text \<open>The defaults of lines 244 to 246: no title, no date.\<close>

definition NO_TITLE :: pystr where
  "NO_TITLE =
     [51228, 47785, 32, 50630, 51020]"

definition NO_DATE :: pystr where
  "NO_DATE =
     [45216, 51676, 32, 51221, 48372, 32, 50630, 51020]"

text \<open>
  The labels of a block (lines 251 to 254 and 378 to 382): publisher, title, time, link,
  body.
\<close>

definition LABEL_PUBLISHER :: pystr where
  "LABEL_PUBLISHER =
     u ''. ['' @ [50616, 47200, 49324, 93, 32]"

definition LABEL_TITLE :: pystr where
  "LABEL_TITLE =
     [10] @ u ''   ['' @ [51228, 47785, 93, 32]"

definition LABEL_TIME :: pystr where
  "LABEL_TIME =
     [10] @ u ''   ['' @ [49884, 44036, 93, 32]"

definition LABEL_LINK :: pystr where
  "LABEL_LINK =
     [10] @ u ''   ['' @ [47553, 53356, 93, 32]"

definition LABEL_BODY :: pystr where
  "LABEL_BODY =
     [10] @ u ''   ['' @ [48376, 47928, 93, 10]"

text \<open>
  The pieces of the summary line (lines 261 and 389) between the keyword, the total and
  the number shown.
\<close>

definition ABOUT_NEWS :: pystr where
  "ABOUT_NEWS =
     [34, 50640, 32, 44288, 54620, 32, 45684, 49828, 32]"

definition OUT_OF :: pystr where
  "OUT_OF =
     [44148, 32, 51473, 32]"

definition FOUND :: pystr where
  "FOUND =
     [44148, 51012, 32, 52286, 50520, 49845, 45768, 45796, 46]"

definition FOUND_WITH_CONTENT :: pystr where
  "FOUND_WITH_CONTENT =
     [44148, 51032, 32, 51228, 47785, 44284, 32, 45236, 50857, 51012, 32, 52286, 50520,
     49845, 45768, 45796, 46]"

text \<open>The fixed instruction of lines 265 to 269 that ends the output of search_news.\<close>

definition ANALYSIS_INSTRUCTION :: pystr where
  "ANALYSIS_INSTRUCTION =
     [51060, 32, 45684, 49828, 46308, 51032, 32, 47589, 46973, 44284, 32, 51452, 50836, 32,
     45236, 50857, 51012, 32, 48516, 49437, 54644, 51452, 49464, 50836, 46, 32, 45796,
     51020, 32, 49324, 54637, 50640, 32, 45824, 54644, 32, 50508, 47140, 51452, 49464,
     50836, 58, 10] @ u ''1. '' @ [51228, 47785, 46308, 51032, 32, 44277, 53685, 32, 51452,
     51228, 10] @ u ''2. '' @ [51452, 50836, 32, 53412, 50892, 46300, 32, 51, 44060, 10] @
     u ''3. '' @ [50612, 46500, 32, 49324, 44148, 51060, 45208, 32, 51060, 49800, 47484,
     32, 45796, 47336, 44256, 32, 51080, 45716, 51648, 10] @ u ''4. '' @ [51060, 32, 45684,
     49828, 46308, 51060, 32, 49884, 49324, 54616, 45716, 32, 49324, 54924, 51201, 47,
     44221, 51228, 51201, 47, 51221, 52824, 51201, 32, 47589, 46973, 10]"

text \<open>
  The fixed instruction of lines 393 to 398 that ends the output of
  search_news_with_content.
\<close>

definition DETAILED_ANALYSIS_INSTRUCTION :: pystr where
  "DETAILED_ANALYSIS_INSTRUCTION =
     [51060, 32, 45684, 49828, 46308, 51032, 32, 49345, 49464, 32, 45236, 50857, 51012, 32,
     48148, 53461, 51004, 47196, 32, 45796, 51020, 32, 49324, 54637, 51012, 32, 48516,
     49437, 54644, 51452, 49464, 50836, 58, 10] @ u ''1. '' @ [51452, 50836, 32, 49324,
     44148, 47, 51060, 49800, 32, 50836, 50557] @ u '' (5-6'' @ [47928, 51109, 41, 10] @
     u ''2. '' @ [54645, 49900, 32, 51064, 47932, 44, 32, 44592, 44288, 44, 32, 51109,
     49548, 10] @ u ''3. '' @ [44033, 32, 50616, 47200, 49324, 48324, 32, 48372, 46020, 32,
     44288, 51216, 32, 52264, 51060, 10] @ u ''4. '' @ [49324, 54924, 51201, 47, 44221,
     51228, 51201, 47, 51221, 52824, 51201, 32, 47589, 46973, 44284, 32, 50689, 54693, 10]
     @ u ''5. '' @ [54693, 54980, 32, 51204, 44060, 32, 44032, 45733, 49457, 10]"

text \<open>
  The messages of the handlers of search_news (lines 273 to 294): timed out,
  authentication failed, too many requests, server error, error with an HTTP status,
  network problem, unexpected error.
\<close>

definition SEARCH_TIMED_OUT :: pystr where
  "SEARCH_TIMED_OUT =
     [44160, 49353, 32, 51473, 32, 49884, 44036, 32, 52488, 44284, 44032, 32, 48156, 49373,
     54664, 49845, 45768, 45796, 46, 32, 51104, 49884, 32, 54980, 32, 45796, 49884, 32,
     49884, 46020, 54644, 32, 51452, 49464, 50836, 46]"

definition AUTH_FAILED :: pystr where
  "AUTH_FAILED =
     u ''API '' @ [51064, 51613, 50640, 32, 49892, 54056, 54664, 49845, 45768, 45796] @
     u ''. API '' @ [53412, 47484, 32, 54869, 51064, 54644, 32, 51452, 49464, 50836, 46]"

definition TOO_MANY_REQUESTS :: pystr where
  "TOO_MANY_REQUESTS =
     [45320, 47924, 32, 47566, 51008, 32, 50836, 52397, 51012, 32, 48372, 45256, 49845,
     45768, 45796, 46, 32, 51104, 49884, 32, 54980, 32, 45796, 49884, 32, 49884, 46020,
     54644, 32, 51452, 49464, 50836, 46]"

definition SERVER_ERROR :: pystr where
  "SERVER_ERROR =
     [49436, 48260, 32, 50724, 47448, 44032, 32, 48156, 49373, 54664, 49845, 45768, 45796,
     46, 32, 51104, 49884, 32, 54980, 32, 45796, 49884, 32, 49884, 46020, 54644, 32, 51452,
     49464, 50836, 46]"

definition SEARCH_ERROR_HTTP :: pystr where
  "SEARCH_ERROR_HTTP =
     [44160, 49353, 32, 51473, 32, 50724, 47448, 44032, 32, 48156, 49373, 54664, 49845,
     45768, 45796] @ u '' (HTTP ''"

definition NETWORK_PROBLEM :: pystr where
  "NETWORK_PROBLEM =
     [45348, 53944, 50892, 53356, 32, 50672, 44208, 32, 47928, 51228, 44032, 32, 48156,
     49373, 54664, 49845, 45768, 45796, 46, 32, 51064, 53552, 45367, 32, 50672, 44208,
     51012, 32, 54869, 51064, 54644, 32, 51452, 49464, 50836, 46]"

definition UNEXPECTED_SEARCH_ERROR :: pystr where
  "UNEXPECTED_SEARCH_ERROR =
     [45684, 49828, 32, 44160, 49353, 32, 51473, 32, 50696, 49345, 52824, 32, 47803, 54620,
     32, 50724, 47448, 44032, 32, 48156, 49373, 54664, 49845, 45768, 45796, 58, 32]"

text \<open>
  The catch-all of search_news_with_content (line 402): an error occurred while
  searching and fetching, before the error's text.
\<close>

definition CONTENT_SEARCH_ERROR :: pystr where
  "CONTENT_SEARCH_ERROR =
     [45684, 49828, 32, 44160, 49353, 32, 48143, 32, 45236, 50857, 32, 44032, 51256, 50724,
     44592, 32, 51473, 32, 50724, 47448, 44032, 32, 48156, 49373, 54664, 49845, 45768,
     45796, 58, 32]"

text \<open>
  The instruction that compare_news_perspectives appends (line 428): analyse above all
  how the publishers differ in viewpoint and framing.
\<close>

definition PERSPECTIVE_INSTRUCTION :: pystr where
  "PERSPECTIVE_INSTRUCTION =
     [10, 10, 53945, 55176, 32, 44033, 32, 50616, 47200, 49324, 48324, 32, 48372, 46020,
     32, 44288, 51216, 44284, 32, 54532, 47112, 51076, 51032, 32, 52264, 51060, 51216,
     51012, 32, 51473, 51216, 51201, 51004, 47196, 32, 48516, 49437, 54644, 32, 51452,
     49464, 50836, 46]"

text \<open>The request to the search API (lines 205 to 220, 335 to 350).\<close>

definition search_request :: "pystr \<Rightarrow> request" where
  "search_request keyword =
     \<lparr>req_url = SEARCH_URL,
      req_params = [(u ''query'', keyword), (u ''display'', str_int MAX_NEWS_ITEMS),
                    (u ''sort'', u ''sim'')],
      req_headers = NAVER_HEADERS\<rparr>"

definition no_results :: "pystr \<Rightarrow> pystr" where
  "no_results keyword = [39] @ keyword @ NO_RESULTS_TAIL"

text \<open>The title with the emphasis tags of the search API removed.\<close>

definition clean_title :: "item \<Rightarrow> pystr" where
  "clean_title it =
     py_replace (u ''</b>'') [] (py_replace (u ''<b>'') [] (dict_get it (u ''title'') NO_TITLE))"

text \<open>The block that one round of the loop of lines 243 to 255 appends.\<close>

definition news_block :: "(pystr \<Rightarrow> pystr) \<Rightarrow> nat \<Rightarrow> item \<Rightarrow> pyexn + pystr" where
  "news_block netloc i it =
     (let title = clean_title it;
          link = dict_get it (u ''link'') (u ''#'');
          pub_date = format_date (dict_get it (u ''pubDate'') NO_DATE)
      in case extract_publisher netloc it of
           Inl e \<Rightarrow> Inl e
         | Inr publisher \<Rightarrow>
             Inr (str_nat (i + 1) @ LABEL_PUBLISHER @ publisher @ LABEL_TITLE @ title
                  @ LABEL_TIME @ pub_date @ LABEL_LINK @ link))"

text \<open>The same for lines 370 to 383, with the content under the link.\<close>

definition content_block ::
  "(pystr \<Rightarrow> pystr) \<Rightarrow> nat \<Rightarrow> item \<times> pystr \<Rightarrow> pyexn + pystr" where
  "content_block netloc i p =
     (case p of (it, content) \<Rightarrow>
        (case news_block netloc i it of
           Inl e \<Rightarrow> Inl e
         | Inr b \<Rightarrow> Inr (b @ LABEL_BODY @ content)))"

text \<open>
  \<open>for i, x in enumerate(xs): news_items.append(...)\<close> from index \<open>i\<close> on; an
  exception ends the loop.
\<close>

fun blocks_from :: "(nat \<Rightarrow> 'a \<Rightarrow> pyexn + pystr) \<Rightarrow> nat \<Rightarrow> 'a list \<Rightarrow> pyexn + pystr list" where
  "blocks_from block i [] = Inr []"
| "blocks_from block i (x # xs) =
     (case block i x of
        Inl e \<Rightarrow> Inl e
      | Inr b \<Rightarrow>
          (case blocks_from block (Suc i) xs of
             Inl e \<Rightarrow> Inl e
           | Inr bs \<Rightarrow> Inr (b # bs)))"

definition total_count :: "search_dict \<Rightarrow> item list \<Rightarrow> int" where
  "total_count data its = (case total data of None \<Rightarrow> int (length its) | Some t \<Rightarrow> t)"

subsection \<open>\<open>search_news\<close>\<close>

text \<open>Lines 241 to 270, for a list of items that is not empty.\<close>

definition search_news_bundle ::
  "(pystr \<Rightarrow> pystr) \<Rightarrow> pystr \<Rightarrow> search_dict \<Rightarrow> item list \<Rightarrow> pyexn + pystr" where
  "search_news_bundle netloc keyword data its =
     (case blocks_from (news_block netloc) 0 its of
        Inl e \<Rightarrow> Inl e
      | Inr news_items \<Rightarrow>
          Inr ([34] @ keyword @ ABOUT_NEWS @ str_int (total_count data its) @ OUT_OF
               @ str_nat (length its) @ FOUND @ [10, 10]
               @ py_join [10, 10] news_items @ [10, 10] @ ANALYSIS_INSTRUCTION))"

text \<open>Lines 222 to 270: the response is decoded, checked and formatted.\<close>

definition search_news_decode ::
  "(pystr \<Rightarrow> pystr) \<Rightarrow> pystr \<Rightarrow> response \<Rightarrow> pyexn + pystr" where
  "search_news_decode netloc keyword response =
     (case json response of
        Inl e \<Rightarrow>
          (case e of
             JSONDecodeError m \<Rightarrow> Inr (COULD_NOT_PROCESS @ BAD_RESPONSE_FORMAT)
           | _ \<Rightarrow> Inl e)
      | Inr (NotDict ty) \<Rightarrow> Inr (COULD_NOT_PROCESS @ UNEXPECTED_RESPONSE_FORMAT)
      | Inr (Dict data) \<Rightarrow>
          (case items data of
             None \<Rightarrow> Inr (COULD_NOT_PROCESS @ ITEMS_NOT_FOUND)
           | Some its \<Rightarrow>
               if its = [] then Inr (no_results keyword)
               else search_news_bundle netloc keyword data its))"

text \<open>The inner \<open>try\<close> of lines 213 to 270.\<close>

definition search_news_try ::
  "(pystr \<Rightarrow> pystr) \<Rightarrow> client \<Rightarrow> pystr \<Rightarrow> (pyexn + pystr) \<times> event list" where
  "search_news_try netloc c keyword =
     (case make_request_with_retry c (search_request keyword) MAX_RETRIES of
        (Inl e, evs) \<Rightarrow> (Inl e, evs)
      | (Inr None, evs) \<Rightarrow> (Inl (NoneType_has_no (u ''json'')), evs)
      | (Inr (Some response), evs) \<Rightarrow> (search_news_decode netloc keyword response, evs))"

text \<open>
  The handlers of lines 271 to 294: the three of the inner \<open>try\<close> in their order, then
  the outer one for every other exception.
\<close>

definition search_news_except :: "pyexn \<Rightarrow> pystr" where
  "search_news_except e =
     (case e of
        TimeoutException m \<Rightarrow> SEARCH_TIMED_OUT
      | HTTPStatusError code m \<Rightarrow>
          if code = 401 \<or> code = 403 then AUTH_FAILED
          else if code = 429 then TOO_MANY_REQUESTS
          else if code \<ge> 500 then SERVER_ERROR
          else SEARCH_ERROR_HTTP @ str_int code @ u '')''
      | RequestError m \<Rightarrow> NETWORK_PROBLEM
      | _ \<Rightarrow> UNEXPECTED_SEARCH_ERROR @ exn_str e)"

text \<open>
  \<open>search_news\<close>: the text returned, with the requests and sleeps made.  \<open>netloc\<close>
  stands for \<open>urlparse(link).netloc\<close>.  The calls of \<open>ctx.info\<close> are left out.
\<close>

definition search_news :: "(pystr \<Rightarrow> pystr) \<Rightarrow> client \<Rightarrow> pystr \<Rightarrow> pystr \<times> event list" where
  "search_news netloc c keyword =
     (if keyword = [] \<or> py_strip keyword = [] then (ENTER_KEYWORD, [])
      else
        (case search_news_try netloc c (py_strip keyword) of
           (Inr result, evs) \<Rightarrow> (result, evs)
         | (Inl e, evs) \<Rightarrow> (search_news_except e, evs)))"

subsection \<open>\<open>search_news_with_content\<close>\<close>

text \<open>
  \<open>asyncio.gather\<close>.  The tasks run concurrently; \<open>delay i\<close> is the time at which
  the \<open>i\<close>-th one ends, so \<open>completed\<close> lists them as they end, each with its
  position among the awaitables.  \<open>gather\<close> hands the results back by position.
\<close>

definition completed :: "(nat \<Rightarrow> nat) \<Rightarrow> 'a list \<Rightarrow> (nat \<times> 'a) list" where
  "completed delay tasks = sort_key (\<lambda>p. delay (fst p)) (enumerate 0 tasks)"

definition gather :: "(nat \<times> 'a) list \<Rightarrow> 'a list" where
  "gather finished = map snd (sort_key fst finished)"

text \<open>Lines 357 to 399, for a list of items that is not empty.\<close>

definition content_bundle ::
  "(pystr \<Rightarrow> pyexn + node list) \<Rightarrow> (pystr \<Rightarrow> pystr) \<Rightarrow> (nat \<Rightarrow> nat) \<Rightarrow> client \<Rightarrow> pystr
     \<Rightarrow> search_dict \<Rightarrow> item list \<Rightarrow> (pyexn + pystr) \<times> event list" where
  "content_bundle parser netloc delay c keyword data its =
     (let tasks = map (\<lambda>it. extract_article_content parser c (dict_get it (u ''link'') (u ''#''))) its;
          finished = completed delay tasks;
          contents = map fst (gather finished);
          evs = concat (map (\<lambda>p. snd (snd p)) finished)
      in case blocks_from (content_block netloc) 0 (zip its contents) of
           Inl e \<Rightarrow> (Inl e, evs)
         | Inr news_items \<Rightarrow>
             (Inr ([34] @ keyword @ ABOUT_NEWS @ str_int (total_count data its) @ OUT_OF
                   @ str_nat (length its) @ FOUND_WITH_CONTENT @ [10, 10]
                   @ [10, 10] @ py_join [10, 10] news_items @ [10, 10]
                   @ DETAILED_ANALYSIS_INSTRUCTION), evs))"

text \<open>
  Lines 352 to 399.  \<open>data.get\<close> on a value that is no object raises
  \<open>AttributeError\<close>; \<open>ty\<close> is the name of the value's type.
\<close>

definition content_decode ::
  "(pystr \<Rightarrow> pyexn + node list) \<Rightarrow> (pystr \<Rightarrow> pystr) \<Rightarrow> (nat \<Rightarrow> nat) \<Rightarrow> client \<Rightarrow> pystr
     \<Rightarrow> response \<Rightarrow> (pyexn + pystr) \<times> event list" where
  "content_decode parser netloc delay c keyword response =
     (case json response of
        Inl e \<Rightarrow> (Inl e, [])
      | Inr (NotDict ty) \<Rightarrow>
          (Inl (OtherException ([39] @ ty @ [39] @ u '' object has no attribute ''
                                @ [39] @ u ''get'' @ [39])), [])
      | Inr (Dict data) \<Rightarrow>
          (case items data of
             None \<Rightarrow> (Inr (no_results keyword), [])
           | Some its \<Rightarrow>
               if its = [] then (Inr (no_results keyword), [])
               else content_bundle parser netloc delay c keyword data its))"

text \<open>The inner \<open>try\<close> of lines 343 to 399.\<close>

definition search_news_with_content_try ::
  "(pystr \<Rightarrow> pyexn + node list) \<Rightarrow> (pystr \<Rightarrow> pystr) \<Rightarrow> (nat \<Rightarrow> nat) \<Rightarrow> client \<Rightarrow> pystr
     \<Rightarrow> (pyexn + pystr) \<times> event list" where
  "search_news_with_content_try parser netloc delay c keyword =
     (case make_request_with_retry c (search_request keyword) MAX_RETRIES of
        (Inl e, evs) \<Rightarrow> (Inl e, evs)
      | (Inr None, evs) \<Rightarrow> (Inl (NoneType_has_no (u ''json'')), evs)
      | (Inr (Some response), evs) \<Rightarrow>
          (case content_decode parser netloc delay c keyword response of
             (res, evs') \<Rightarrow> (res, evs @ evs')))"

text \<open>
  \<open>search_news_with_content\<close>.  The inner handler of line 400 takes every exception, so
  the outer one of line 404 has nothing left to take.
\<close>

definition search_news_with_content ::
  "(pystr \<Rightarrow> pyexn + node list) \<Rightarrow> (pystr \<Rightarrow> pystr) \<Rightarrow> (nat \<Rightarrow> nat) \<Rightarrow> client \<Rightarrow> pystr
     \<Rightarrow> pystr \<times> event list" where
  "search_news_with_content parser netloc delay c keyword =
     (if keyword = [] \<or> py_strip keyword = [] then (ENTER_KEYWORD, [])
      else
        (case search_news_with_content_try parser netloc delay c (py_strip keyword) of
           (Inr result, evs) \<Rightarrow> (result, evs)
         | (Inl e, evs) \<Rightarrow> (CONTENT_SEARCH_ERROR @ exn_str e, evs)))"

subsection \<open>\<open>compare_news_perspectives\<close>\<close>

text \<open>
  The call of line 423 returns a string whatever happens, so the handler of line 430 is
  never entered; what is left is line 428.
\<close>

definition compare_news_perspectives ::
  "(pystr \<Rightarrow> pyexn + node list) \<Rightarrow> (pystr \<Rightarrow> pystr) \<Rightarrow> (nat \<Rightarrow> nat) \<Rightarrow> client \<Rightarrow> pystr
     \<Rightarrow> pystr \<times> event list" where
  "compare_news_perspectives parser netloc delay c keyword =
     (case search_news_with_content parser netloc delay c keyword of
        (news_result, evs) \<Rightarrow> (news_result @ PERSPECTIVE_INSTRUCTION, evs))"




text \<open>Example inputs: an address outside the portal, and small documents.\<close>

definition example_url :: pystr where
  "example_url = u ''http://example.com/a''"


definition article_soup :: "pystr \<Rightarrow> node list" where
  "article_soup t = [Element (u ''article'') [] [Text t]]"


definition long_text :: pystr where
  "long_text = replicate 1001 97"


text \<open>
  A stand-in for \<open>urlparse(link).netloc\<close> on the examples: what lies between the
  first \<open>//\<close> and the next \<open>/\<close>, \<open>?\<close> or \<open>#\<close>.
\<close>

definition example_netloc :: "pystr \<Rightarrow> pystr" where
  "example_netloc link =
     (case py_split (u ''//'') link of
        _ # rest # _ \<Rightarrow> takeWhile (\<lambda>c. c \<noteq> 47 \<and> c \<noteq> 63 \<and> c \<noteq> 35) rest
      | _ \<Rightarrow> [])"

text \<open>
  Stand-ins for the examples: the parser on a text without markup, and ending times under
  which a later task ends before an earlier one.
\<close>

definition plain_text_parser :: "pystr \<Rightarrow> pyexn + node list" where
  "plain_text_parser html = Inr [Text html]"

definition reversed_delay :: "nat \<Rightarrow> nat" where
  "reversed_delay i = 10 - i"

text \<open>
  Simulated search backends: the search API answers with one given response, every other
  address is not found.
\<close>

definition json_response :: "pystr \<Rightarrow> pyexn + search_data \<Rightarrow> response" where
  "json_response body j =
     \<lparr>status_code = 200, resp_text = body, json = j, status_error_text = []\<rparr>"

definition search_backend :: "response \<Rightarrow> client" where
  "search_backend r req k = (if req_url req = SEARCH_URL then Inr r else Inr (bare_response 404))"

definition garbage_response :: response where
  "garbage_response =
     json_response (u ''<html>'')
       (Inl (JSONDecodeError (u ''Expecting value: line 1 column 1 (char 0)'')))"

definition no_items_response :: response where
  "no_items_response = json_response (u ''{}'') (Inr (Dict \<lparr>items = None, total = None\<rparr>))"



section \<open>Properties of the retry wrapper\<close>

declare retry_loop.simps [simp del]

text \<open>
  A failure is followed by another attempt exactly when it is of a retried class and the
  attempt is not the last.
\<close>

lemma retry_after_iff: "retry_after e a N \<longleftrightarrow> retryable e \<and> a < N - 1"
  by (cases e) auto

text \<open>
  The loop from attempt \<open>k\<close> on ends at the first attempt \<open>j\<close> that succeeds, or fails
  with a final error, or is the last one allowed.
\<close>

lemma retry_loop_stops:
  assumes "k \<le> j" and "int j < N"
    and "\<forall>i. k \<le> i \<and> i < j \<longrightarrow> (\<exists>e. attempt_get c req i = Inl e \<and> retryable e)"
    and "case attempt_get c req j of Inr r \<Rightarrow> True | Inl e \<Rightarrow> \<not> retryable e \<or> int j = N - 1"
  shows "retry_loop c req N (int k) =
     ((case attempt_get c req j of Inr r \<Rightarrow> Inr (Some r) | Inl e \<Rightarrow> Inl e),
      concat (replicate (j - k) [Get req, Sleep RETRY_DELAY]) @ [Get req])"
  using assms
proof (induction "j - k" arbitrary: k)
  case 0
  then have "k = j" by simp
  with 0 show ?case
    by (subst retry_loop.simps) (auto simp: retry_after_iff split: sum.splits)
next
  case (Suc d)
  then have lt: "k < j" by simp
  with Suc.prems obtain e where e: "attempt_get c req k = Inl e" "retryable e"
    by blast
  have again: "retry_after e (int k) N"
    using lt Suc.prems(2) e(2) by (simp add: retry_after_iff)
  have IH: "retry_loop c req N (int (Suc k)) =
     ((case attempt_get c req j of Inr r \<Rightarrow> Inr (Some r) | Inl e \<Rightarrow> Inl e),
      concat (replicate (j - Suc k) [Get req, Sleep RETRY_DELAY]) @ [Get req])"
    using Suc.hyps Suc.prems lt by (intro Suc.hyps(1)) auto
  have rep: "j - k = Suc (j - Suc k)"
    using lt by simp
  have IH': "retry_loop c req N (int k + 1) =
     ((case attempt_get c req j of Inr r \<Rightarrow> Inr (Some r) | Inl e \<Rightarrow> Inl e),
      concat (replicate (j - Suc k) [Get req, Sleep RETRY_DELAY]) @ [Get req])"
    using IH by (simp add: add.commute)
  have inrange: "0 \<le> int k \<and> int k < N"
    using lt Suc.prems(2) by simp
  show ?case
    using inrange e again IH' by (subst retry_loop.simps) (simp add: rep)
qed

lemma make_request_stops:
  assumes "int j < N"
    and "\<forall>i<j. \<exists>e. attempt_get c req i = Inl e \<and> retryable e"
    and "case attempt_get c req j of Inr r \<Rightarrow> True | Inl e \<Rightarrow> \<not> retryable e \<or> int j = N - 1"
  shows "make_request_with_retry c req N =
     ((case attempt_get c req j of Inr r \<Rightarrow> Inr (Some r) | Inl e \<Rightarrow> Inl e),
      attempts_trace req j)"
  using retry_loop_stops [of 0 j N c req] assms
  by (simp add: make_request_with_retry_def attempts_trace_def)

text \<open>
  C1.  With \<open>N \<ge> 1\<close> attempts allowed: (1) if the attempts before the \<open>j\<close>-th all fail
  with a timeout, a transport error or a status of 429 or at least 500, and the \<open>j\<close>-th
  succeeds, its response is returned and no failure is surfaced; (2) if instead the
  \<open>j\<close>-th fails with any other status, that failure is raised there and then, after one
  attempt when \<open>j = 0\<close>, with no sleep after it; (3) if all \<open>N\<close> attempts fail in the
  retried way, the failure of the last one is raised after exactly \<open>N\<close> attempts.  In
  each case a sleep of the fixed delay lies between any two attempts.
\<close>

theorem make_request_with_retry_policy:
  assumes "1 \<le> N"
  shows "(\<forall>j r. int j < N \<and> (\<forall>i<j. \<exists>e. attempt_get c req i = Inl e \<and> retryable e)
            \<and> attempt_get c req j = Inr r
          \<longrightarrow> make_request_with_retry c req N = (Inr (Some r), attempts_trace req j))
       \<and> (\<forall>j e. int j < N \<and> (\<forall>i<j. \<exists>e. attempt_get c req i = Inl e \<and> retryable e)
            \<and> attempt_get c req j = Inl e \<and> \<not> retryable e
          \<longrightarrow> make_request_with_retry c req N = (Inl e, attempts_trace req j))
       \<and> ((\<forall>i. int i < N \<longrightarrow> (\<exists>e. attempt_get c req i = Inl e \<and> retryable e))
          \<longrightarrow> (\<exists>e. attempt_get c req (nat (N - 1)) = Inl e
                \<and> make_request_with_retry c req N = (Inl e, attempts_trace req (nat (N - 1)))))"
proof (intro conjI allI impI)
  fix j r
  assume "int j < N \<and> (\<forall>i<j. \<exists>e. attempt_get c req i = Inl e \<and> retryable e)
            \<and> attempt_get c req j = Inr r"
  then show "make_request_with_retry c req N = (Inr (Some r), attempts_trace req j)"
    using make_request_stops [of j N c req] by simp
next
  fix j e
  assume "int j < N \<and> (\<forall>i<j. \<exists>e. attempt_get c req i = Inl e \<and> retryable e)
            \<and> attempt_get c req j = Inl e \<and> \<not> retryable e"
  then show "make_request_with_retry c req N = (Inl e, attempts_trace req j)"
    using make_request_stops [of j N c req] by simp
next
  assume all: "\<forall>i. int i < N \<longrightarrow> (\<exists>e. attempt_get c req i = Inl e \<and> retryable e)"
  let ?j = "nat (N - 1)"
  have lt: "int ?j < N" and last: "int ?j = N - 1"
    using assms by simp_all
  from all lt obtain e where e: "attempt_get c req ?j = Inl e"
    by blast
  have before: "\<forall>i<?j. \<exists>e. attempt_get c req i = Inl e \<and> retryable e"
    using all by auto
  have "make_request_with_retry c req N = (Inl e, attempts_trace req ?j)"
    using make_request_stops [of ?j N c req] lt before e last by simp
  with e show "\<exists>e. attempt_get c req ?j = Inl e
      \<and> make_request_with_retry c req N = (Inl e, attempts_trace req ?j)"
    by blast
qed

text \<open>
  At three attempts: a backend that answers 503 twice and then 200 gives the response
  after two sleeps; one that always answers 404 gives \<open>HTTPStatusError 404\<close> after a
  single request; one that times out and then answers 503 for ever gives the last 503
  after three requests.
\<close>

theorem make_request_with_retry_policy_witness:
  "(1::int) \<le> 3
   \<and> make_request_with_retry flaky_client some_request 3 =
       (Inr (Some (bare_response 200)),
        [Get some_request, Sleep 1, Get some_request, Sleep 1, Get some_request])
   \<and> make_request_with_retry not_found_client some_request 3 =
       (Inl (HTTPStatusError 404 (u ''404'')), [Get some_request])
   \<and> make_request_with_retry down_client some_request 3 =
       (Inl (HTTPStatusError 503 (u ''503'')),
        [Get some_request, Sleep 1, Get some_request, Sleep 1, Get some_request])"
proof -
  have N: "(1::int) \<le> 3"
    by simp
  note policy = make_request_with_retry_policy [OF N]
  have flaky: "attempt_get flaky_client some_request i =
      (if i < 2 then Inl (HTTPStatusError 503 (u ''503'')) else Inr (bare_response 200))" for i
    by (simp add: attempt_get_def flaky_client_def raise_for_status_def bare_response_def
        str_int_def u_def)
  have not_found: "attempt_get not_found_client some_request i =
      Inl (HTTPStatusError 404 (u ''404''))" for i
    by (simp add: attempt_get_def not_found_client_def raise_for_status_def bare_response_def
        str_int_def u_def)
  have down: "attempt_get down_client some_request i =
      (if i = 0 then Inl (TimeoutException (u ''timed out''))
       else Inl (HTTPStatusError 503 (u ''503'')))" for i
    by (simp add: attempt_get_def down_client_def raise_for_status_def bare_response_def
        str_int_def u_def)
  have trace2: "attempts_trace some_request 2 =
      [Get some_request, Sleep 1, Get some_request, Sleep 1, Get some_request]"
    by (simp add: attempts_trace_def RETRY_DELAY_def numeral_2_eq_2)
  have trace0: "attempts_trace some_request 0 = [Get some_request]"
    by (simp add: attempts_trace_def)
  have "make_request_with_retry flaky_client some_request 3 =
      (Inr (Some (bare_response 200)), attempts_trace some_request 2)"
    using policy [of flaky_client some_request] by (simp add: flaky)
  moreover have "make_request_with_retry not_found_client some_request 3 =
      (Inl (HTTPStatusError 404 (u ''404'')), attempts_trace some_request 0)"
    using policy [of not_found_client some_request] by (simp add: not_found)
  moreover have "make_request_with_retry down_client some_request 3 =
      (Inl (HTTPStatusError 503 (u ''503'')), attempts_trace some_request 2)"
    using policy [of down_client some_request] by (simp add: down)
  ultimately show ?thesis
    by (simp add: trace2 trace0)
qed

section \<open>Properties of \<open>format_date\<close>\<close>

declare str_nat.simps [simp del]





















section \<open>Properties of \<open>extract_publisher\<close>\<close>

declare py_split.simps [simp del] py_replace.simps [simp del]

lemma py_split_Nil: "sep \<noteq> [] \<Longrightarrow> py_split sep [] = [[]]"
  by (subst py_split.simps) (cases sep, simp_all)

lemma py_split_Cons:
  "sep \<noteq> [] \<Longrightarrow> py_split sep (c # cs) =
     (if take (length sep) (c # cs) = sep then [] # py_split sep (drop (length sep) (c # cs))
      else (case py_split sep cs of [] \<Rightarrow> [[c]] | p # ps \<Rightarrow> (c # p) # ps))"
  by (subst py_split.simps) simp

text \<open>
  A split never gives an empty list, and it gives two pieces or more exactly when the
  separator occurs; so neither index of \<open>extract_publisher\<close> is out of range.
\<close>

lemma py_split_pieces:
  "sep \<noteq> [] \<Longrightarrow> py_split sep s \<noteq> [] \<and> (2 \<le> length (py_split sep s) \<longleftrightarrow> py_contains sep s)"
proof (induction sep s rule: py_split.induct)
  case (1 sep s)
  show ?case
  proof (cases s)
    case Nil
    with "1.prems" show ?thesis by (simp add: py_split_Nil)
  next
    case (Cons c cs)
    show ?thesis
    proof (cases "take (length sep) s = sep")
      case True
      with "1.IH"(1) "1.prems" have "py_split sep (drop (length sep) s) \<noteq> []" by simp
      then have "2 \<le> length ([] # py_split sep (drop (length sep) s))"
        by (cases "py_split sep (drop (length sep) s)") simp_all
      with True Cons "1.prems" show ?thesis by (simp add: py_split_Cons)
    next
      case False
      with "1.IH"(2) [OF "1.prems" False Cons] "1.prems"
      have IH: "py_split sep cs \<noteq> []" "2 \<le> length (py_split sep cs) \<longleftrightarrow> py_contains sep cs"
        by simp_all
      from IH(1) obtain p ps where ps: "py_split sep cs = p # ps"
        by (cases "py_split sep cs") auto
      with False Cons "1.prems" IH(2) show ?thesis by (simp add: py_split_Cons)
    qed
  qed
qed

text \<open>The pieces of a split, joined by the separator, give the string back.\<close>

lemma join_split: "sep \<noteq> [] \<Longrightarrow> py_join sep (py_split sep s) = s"
proof (induction sep s rule: py_split.induct)
  case (1 sep s)
  show ?case
  proof (cases s)
    case Nil
    with "1.prems" show ?thesis by (simp add: py_split_Nil)
  next
    case (Cons c cs)
    show ?thesis
    proof (cases "take (length sep) s = sep")
      case True
      with "1.IH"(1) "1.prems" have IH: "py_join sep (py_split sep (drop (length sep) s)) = drop (length sep) s"
        by simp
      obtain p ps where ps: "py_split sep (drop (length sep) s) = p # ps"
        using py_split_pieces [OF "1.prems", of "drop (length sep) s"]
        by (cases "py_split sep (drop (length sep) s)") auto
      have "s = sep @ drop (length sep) s"
        using True by (metis append_take_drop_id)
      with True Cons "1.prems" IH ps show ?thesis
        by (simp add: py_split_Cons)
    next
      case False
      with "1.IH"(2) [OF "1.prems" False Cons] "1.prems"
      have IH: "py_join sep (py_split sep cs) = cs"
        by simp
      obtain p ps where ps: "py_split sep cs = p # ps"
        using py_split_pieces [OF "1.prems", of cs] by (cases "py_split sep cs") auto
      with False Cons "1.prems" IH show ?thesis
        by (cases ps) (simp_all add: py_split_Cons)
    qed
  qed
qed







section \<open>Whitespace normalisation\<close>

declare re_sub_ws.simps [simp del]

lemma words_from_nonspace:
  "\<forall>c\<in>set w. \<not> py_isspace c \<Longrightarrow> words_from acc (w @ s) = words_from (rev w @ acc) s"
  by (induction w arbitrary: acc) simp_all

lemma words_from_space: "py_isspace c \<Longrightarrow> words_from [] (c # s) = words_from [] s"
  by simp

lemma words_from_dropWhile: "words_from [] (dropWhile py_isspace s) = words_from [] s"
  by (induction s) simp_all

lemma words_word_alone:
  "w \<noteq> [] \<Longrightarrow> \<forall>c\<in>set w. \<not> py_isspace c \<Longrightarrow> words_from [] w = [w]"
  using words_from_nonspace [of w "[]" "[]"] by simp

lemma words_word_then_space:
  "w \<noteq> [] \<Longrightarrow> \<forall>c\<in>set w. \<not> py_isspace c \<Longrightarrow> py_isspace c \<Longrightarrow>
     words_from [] (w @ c # s) = w # words_from [] s"
  using words_from_nonspace [of w "[]" "c # s"] by simp

lemma first_word:
  assumes "s \<noteq> []" "\<not> py_isspace (hd s)"
  obtains w where "s = w" "w \<noteq> []" "\<forall>c\<in>set w. \<not> py_isspace c"
  | w c r where "s = w @ c # r" "w \<noteq> []" "\<forall>c\<in>set w. \<not> py_isspace c" "py_isspace c"
proof -
  let ?w = "takeWhile (\<lambda>c. \<not> py_isspace c) s" and ?r = "dropWhile (\<lambda>c. \<not> py_isspace c) s"
  have w: "?w \<noteq> []" "\<forall>c\<in>set ?w. \<not> py_isspace c"
    using assms by (cases s, auto dest: set_takeWhileD)
  have s: "s = ?w @ ?r" by simp
  show thesis
  proof (cases ?r)
    case Nil
    with s have "s = ?w" by (metis append_Nil2)
    with w that(1) show thesis by blast
  next
    case (Cons c r)
    then have "py_isspace c" using hd_dropWhile [of "\<lambda>c. \<not> py_isspace c" s] by auto
    moreover from s Cons have "s = ?w @ c # r" by metis
    ultimately show thesis using w that(2) by blast
  qed
qed

lemma words_nonempty:
  assumes "s \<noteq> []" "\<not> py_isspace (hd s)"
  shows "words_from [] s \<noteq> []"
  using assms
proof (rule first_word)
  fix w
  assume "s = w" "w \<noteq> []" "\<forall>c\<in>set w. \<not> py_isspace c"
  then show ?thesis using words_word_alone [of w] by simp
next
  fix w c r
  assume "s = w @ c # r" "w \<noteq> []" "\<forall>c\<in>set w. \<not> py_isspace c" "py_isspace c"
  then show ?thesis using words_word_then_space [of w c r] by simp
qed

lemma re_sub_ws_nonspace:
  "\<forall>c\<in>set w. \<not> py_isspace c \<Longrightarrow> re_sub_ws (w @ s) = w @ re_sub_ws s"
  by (induction w) (simp_all add: re_sub_ws.simps)

lemma re_sub_ws_space:
  "py_isspace c \<Longrightarrow> re_sub_ws (c # s) = 32 # re_sub_ws (dropWhile py_isspace s)"
  by (simp add: re_sub_ws.simps)

lemma space_32: "py_isspace 32"
  by (simp add: py_isspace_def)

lemma py_rstrip_append:
  "py_rstrip b \<noteq> [] \<Longrightarrow> py_rstrip (a @ b) = a @ py_rstrip b"
  by (auto simp: py_rstrip_def dropWhile_append split: if_splits)

lemma py_rstrip_word: "w \<noteq> [] \<Longrightarrow> \<forall>c\<in>set w. \<not> py_isspace c \<Longrightarrow> py_rstrip w = w"
  by (cases w rule: rev_cases) (simp_all add: py_rstrip_def)

lemma py_rstrip_word_space:
  "w \<noteq> [] \<Longrightarrow> \<forall>c\<in>set w. \<not> py_isspace c \<Longrightarrow> py_rstrip (w @ [32]) = w"
  by (cases w rule: rev_cases) (simp_all add: py_rstrip_def space_32)


lemma re_sub_ws_no_leading:
  "s \<noteq> [] \<Longrightarrow> \<not> py_isspace (hd s) \<Longrightarrow> re_sub_ws s \<noteq> [] \<and> \<not> py_isspace (hd (re_sub_ws s))"
  by (cases s) (simp_all add: re_sub_ws.simps)

text \<open>
  Without leading whitespace, collapsing the runs and stripping the right end gives the
  words joined by single spaces.
\<close>

lemma rstrip_re_sub_ws:
  "s = [] \<or> \<not> py_isspace (hd s) \<Longrightarrow> py_rstrip (re_sub_ws s) = py_join [32] (words_from [] s)"
proof (induction "length s" arbitrary: s rule: less_induct)
  case less
  show ?case
  proof (cases "s = []")
    case True
    then show ?thesis by (simp add: re_sub_ws.simps py_rstrip_def)
  next
    case False
    with less.prems have hd: "\<not> py_isspace (hd s)" by simp
    from False hd show ?thesis
    proof (rule first_word)
      fix w
      assume "s = w" "w \<noteq> []" "\<forall>c\<in>set w. \<not> py_isspace c"
      then show ?thesis
        using re_sub_ws_nonspace [of w "[]"] words_word_alone [of w] py_rstrip_word [of w]
        by (simp add: re_sub_ws.simps)
    next
      fix w c r
      assume s: "s = w @ c # r" and w: "w \<noteq> []" "\<forall>c\<in>set w. \<not> py_isspace c"
        and c: "py_isspace c"
      define t where "t = dropWhile py_isspace r"
      have t: "t = [] \<or> \<not> py_isspace (hd t)"
        unfolding t_def using hd_dropWhile [of py_isspace r] by auto
      have "length t < length s"
        unfolding t_def using s length_dropWhile_le [of py_isspace r] by simp
      with t have IH: "py_rstrip (re_sub_ws t) = py_join [32] (words_from [] t)"
        using less.hyps by blast
      have sub: "re_sub_ws s = w @ 32 # re_sub_ws t"
        unfolding t_def using s w c by (simp add: re_sub_ws_nonspace re_sub_ws_space)
      have words: "words_from [] s = w # words_from [] t"
        unfolding t_def using s w c by (simp add: words_word_then_space words_from_dropWhile)
      show ?thesis
      proof (cases "t = []")
        case True
        then show ?thesis
          using sub words w py_rstrip_word_space [of w] by (simp add: re_sub_ws.simps)
      next
        case nonempty: False
        with t have "words_from [] t \<noteq> []"
          using words_nonempty by blast
        then obtain p ps where ps: "words_from [] t = p # ps"
          by (cases "words_from [] t") auto
        have "re_sub_ws t \<noteq> []" "\<not> py_isspace (hd (re_sub_ws t))"
          using re_sub_ws_no_leading nonempty t by blast+
        then have "py_rstrip (re_sub_ws t) \<noteq> []"
          by (cases "re_sub_ws t") (auto simp: py_rstrip_def)
        then have "py_rstrip (re_sub_ws s) = w @ 32 # py_rstrip (re_sub_ws t)"
          using sub py_rstrip_append [of "re_sub_ws t" "w @ [32]"] by simp
        then show ?thesis
          using IH words ps by simp
      qed
    qed
  qed
qed

lemma py_lstrip_re_sub_ws: "py_lstrip (re_sub_ws s) = re_sub_ws (py_lstrip s)"
proof (cases "s = [] \<or> \<not> py_isspace (hd s)")
  case True
  then show ?thesis
    using re_sub_ws_no_leading [of s]
    by (cases s; cases "re_sub_ws s") (auto simp: py_lstrip_def re_sub_ws.simps)
next
  case False
  then obtain c r where s: "s = c # r" "py_isspace c"
    by (cases s) auto
  define t where "t = dropWhile py_isspace r"
  have t: "t = [] \<or> \<not> py_isspace (hd t)"
    unfolding t_def using hd_dropWhile [of py_isspace r] by auto
  have "dropWhile py_isspace (re_sub_ws t) = re_sub_ws t"
  proof (cases "t = []")
    case True
    then show ?thesis by (simp add: re_sub_ws.simps)
  next
    case False
    with t re_sub_ws_no_leading [of t] show ?thesis
      by (cases "re_sub_ws t") simp_all
  qed
  then show ?thesis
    using s by (simp add: py_lstrip_def re_sub_ws_space space_32 t_def)
qed

text \<open>
  The two lines of post-processing leave the words of the text, in order, with one space
  between neighbours.
\<close>

lemma normalize_ws_words: "normalize_ws content = py_join [32] (words_from [] content)"
proof -
  let ?t = "py_lstrip content"
  have "?t = [] \<or> \<not> py_isspace (hd ?t)"
    using hd_dropWhile [of py_isspace content] by (auto simp: py_lstrip_def)
  then have "py_rstrip (re_sub_ws ?t) = py_join [32] (words_from [] ?t)"
    by (rule rstrip_re_sub_ws)
  then show ?thesis
    by (simp add: normalize_ws_def py_strip_def py_lstrip_re_sub_ws)
      (simp add: py_lstrip_def words_from_dropWhile)
qed

section \<open>Properties of the content extractor\<close>

lemma py_strip_word:
  assumes "\<forall>c\<in>set w. \<not> py_isspace c"
  shows "py_strip w = w"
proof -
  have "py_lstrip w = w"
    using assms by (cases w) (simp_all add: py_lstrip_def)
  moreover have "py_rstrip w = w"
    using assms py_rstrip_word [of w] by (cases "w = []") (simp_all add: py_rstrip_def)
  ultimately show ?thesis
    by (simp add: py_strip_def)
qed

lemma normalize_ws_word: "w \<noteq> [] \<Longrightarrow> \<forall>c\<in>set w. \<not> py_isspace c \<Longrightarrow> normalize_ws w = w"
  by (simp add: normalize_ws_words words_word_alone)

lemma select_article: "select_nodes GENERIC_CONTAINERS (article_soup t) = article_soup t"
  by (simp add: article_soup_def GENERIC_CONTAINERS_def matches_def u_def)

lemma not_naver: "\<not> py_contains (u ''news.naver.com'') example_url"
  by (simp add: example_url_def u_def)


lemma truncate_content_cases:
  "truncate_content n =
     (if length n > MAX_CONTENT_LENGTH then take MAX_CONTENT_LENGTH n @ TRUNCATION_MARKER else n)"
  by (simp add: truncate_content_def)



lemma long_text_word: "long_text \<noteq> []" "\<forall>c\<in>set long_text. \<not> py_isspace c"
  by (simp_all add: long_text_def py_isspace_def)


lemma words_spaced: "words_from [] (u ''Hello '' @ [10] @ u ''  world'') = [u ''Hello'', u ''world'']"
  by (simp add: py_isspace_def u_def)


lemma extract_article:
  "extract_from_soup example_url (article_soup t) = truncate_content (normalize_ws (py_strip t))"
  by (simp add: extract_from_soup_def naver_text_def not_naver container_text_def select_article)
    (simp add: article_soup_def)

lemma extract_long_article:
  "extract_from_soup example_url (article_soup long_text) = take 1000 long_text @ TRUNCATION_MARKER"
  by (simp add: extract_article py_strip_word long_text_word normalize_ws_word
      truncate_content_cases MAX_CONTENT_LENGTH_def)
    (simp add: long_text_def)

text \<open>
  C5 as stated fails: for an article of 1001 letters the body has 1003 characters.
\<close>

theorem extract_length_counterexample:
  "length (extract_from_soup example_url (article_soup long_text)) = 1003
   \<and> \<not> length (extract_from_soup example_url (article_soup long_text)) \<le> MAX_CONTENT_LENGTH"
  by (simp add: extract_long_article TRUNCATION_MARKER_def u_def MAX_CONTENT_LENGTH_def)
    (simp add: long_text_def)

lemma length_truncate_content:
  "length (truncate_content n) \<le> MAX_CONTENT_LENGTH + length TRUNCATION_MARKER"
  by (simp add: truncate_content_def)

lemma length_extract_from_soup:
  "length (extract_from_soup url soup) \<le> MAX_CONTENT_LENGTH + length TRUNCATION_MARKER"
  by (simp add: extract_from_soup_def length_truncate_content split: option.splits)
    (simp add: NOT_EXTRACTABLE_def MAX_CONTENT_LENGTH_def)

text \<open>
  C5, amended.  The body that \<open>extract_article_content\<close> returns has at most
  \<open>MAX_CONTENT_LENGTH\<close> characters plus the three of the truncation marker, unless it is
  the extraction-failure message with the text of the error; the body taken from a parsed
  document always keeps to that bound.
\<close>

theorem extract_article_content_length:
  "(length (fst (extract_article_content parser c link))
      \<le> MAX_CONTENT_LENGTH + length TRUNCATION_MARKER
    \<or> (\<exists>e. fst (extract_article_content parser c link) = EXTRACTION_FAILED @ exn_str e))
   \<and> length (extract_from_soup link soup) \<le> MAX_CONTENT_LENGTH + length TRUNCATION_MARKER
   \<and> length TRUNCATION_MARKER = 3"
proof -
  have "length (fst (extract_article_content parser c link))
      \<le> MAX_CONTENT_LENGTH + length TRUNCATION_MARKER
    \<or> (\<exists>e. fst (extract_article_content parser c link) = EXTRACTION_FAILED @ exn_str e)"
    by (auto simp: extract_article_content_def length_extract_from_soup
        split: prod.splits sum.splits option.splits)
  then show ?thesis
    by (simp add: length_extract_from_soup) (simp add: TRUNCATION_MARKER_def u_def)
qed





section \<open>Properties of the tools\<close>





lemma strip_nonempty: "py_strip keyword \<noteq> [] \<Longrightarrow> keyword \<noteq> []"
  by (auto simp: py_strip_def py_lstrip_def py_rstrip_def)


lemma search_backend_fetch:
  assumes "200 \<le> status_code r" "status_code r \<le> 299"
  shows "make_request_with_retry (search_backend r) (search_request k) MAX_RETRIES =
     (Inr (Some r), [Get (search_request k)])"
  using assms
  by (simp add: make_request_with_retry_def retry_loop.simps MAX_RETRIES_def attempt_get_def
      search_backend_def search_request_def raise_for_status_def)

lemma strip_news: "py_strip (u ''news'') = u ''news''"
  by (simp add: py_strip_def py_lstrip_def py_rstrip_def py_isspace_def u_def)


lemma strip_whitespace:
  assumes "list_all py_isspace keyword"
  shows "py_strip keyword = []"
proof -
  have "dropWhile py_isspace keyword = []"
    using assms by (simp add: list_all_iff)
  then show ?thesis
    by (simp only: py_strip_def py_lstrip_def py_rstrip_def) simp
qed

text \<open>
  C6, amended.  For an empty or whitespace-only keyword none of the three tools makes a
  request; \<open>search_news\<close> and \<open>search_news_with_content\<close> return the fixed
  rejection message, and \<open>compare_news_perspectives\<close> returns that message followed by
  its perspective-comparison instruction.
\<close>

theorem blank_keyword_rejected:
  assumes "list_all py_isspace keyword"
  shows "search_news netloc c keyword = (ENTER_KEYWORD, [])
       \<and> search_news_with_content parser netloc delay c keyword = (ENTER_KEYWORD, [])
       \<and> compare_news_perspectives parser netloc delay c keyword =
           (ENTER_KEYWORD @ PERSPECTIVE_INSTRUCTION, [])"
  using strip_whitespace [OF assms]
  by (simp add: search_news_def search_news_with_content_def compare_news_perspectives_def)

text \<open>
  A keyword of three blanks.
\<close>

theorem blank_keyword_rejected_witness:
  "list_all py_isspace (u ''   '')
   \<and> search_news example_netloc not_found_client (u ''   '') = (ENTER_KEYWORD, [])
   \<and> search_news_with_content plain_text_parser example_netloc reversed_delay not_found_client
        (u ''   '') = (ENTER_KEYWORD, [])
   \<and> compare_news_perspectives plain_text_parser example_netloc reversed_delay not_found_client
        (u ''   '') = (ENTER_KEYWORD @ PERSPECTIVE_INSTRUCTION, [])"
proof -
  have blank: "list_all py_isspace (u ''   '')"
    by (simp add: u_def py_isspace_def)
  show ?thesis
    using blank blank_keyword_rejected [OF blank] by simp
qed

text \<open>
  C6 as stated fails for \<open>compare_news_perspectives\<close>: on a keyword of three blanks
  its result is not the rejection message alone.
\<close>

theorem compare_blank_keyword_counterexample:
  "fst (compare_news_perspectives plain_text_parser example_netloc reversed_delay
          not_found_client (u ''   ''))
     \<noteq> ENTER_KEYWORD"
proof -
  have "py_strip (u ''   '') = []"
    by (rule strip_whitespace) (simp add: u_def py_isspace_def)
  then show ?thesis
    by (simp add: compare_news_perspectives_def search_news_with_content_def
        PERSPECTIVE_INSTRUCTION_def)
qed

text \<open>
  C10.  On every keyword \<open>compare_news_perspectives\<close> returns the string of
  \<open>search_news_with_content\<close> with the perspective-comparison instruction appended,
  and makes the same requests.  In particular the instruction follows the rejection
  message for a blank keyword, and the error message when the search request fails.
\<close>

theorem compare_appends_instruction:
  "compare_news_perspectives parser netloc delay c keyword =
     (fst (search_news_with_content parser netloc delay c keyword) @ PERSPECTIVE_INSTRUCTION,
      snd (search_news_with_content parser netloc delay c keyword))
   \<and> (list_all py_isspace keyword \<longrightarrow>
        fst (compare_news_perspectives parser netloc delay c keyword) =
          ENTER_KEYWORD @ PERSPECTIVE_INSTRUCTION)
   \<and> (\<forall>e evs. py_strip keyword \<noteq> []
          \<and> make_request_with_retry c (search_request (py_strip keyword)) MAX_RETRIES = (Inl e, evs)
        \<longrightarrow> fst (compare_news_perspectives parser netloc delay c keyword) =
              CONTENT_SEARCH_ERROR @ exn_str e @ PERSPECTIVE_INSTRUCTION)"
proof (intro conjI allI impI)
  show "compare_news_perspectives parser netloc delay c keyword =
     (fst (search_news_with_content parser netloc delay c keyword) @ PERSPECTIVE_INSTRUCTION,
      snd (search_news_with_content parser netloc delay c keyword))"
    by (simp add: compare_news_perspectives_def split: prod.splits)
next
  assume "list_all py_isspace keyword"
  then have "py_strip keyword = []"
    by (rule strip_whitespace)
  then show "fst (compare_news_perspectives parser netloc delay c keyword) =
      ENTER_KEYWORD @ PERSPECTIVE_INSTRUCTION"
    by (simp add: compare_news_perspectives_def search_news_with_content_def)
next
  fix e evs
  assume "py_strip keyword \<noteq> []
      \<and> make_request_with_retry c (search_request (py_strip keyword)) MAX_RETRIES = (Inl e, evs)"
  then show "fst (compare_news_perspectives parser netloc delay c keyword) =
      CONTENT_SEARCH_ERROR @ exn_str e @ PERSPECTIVE_INSTRUCTION"
    using strip_nonempty [of keyword]
    by (simp add: compare_news_perspectives_def search_news_with_content_def
        search_news_with_content_try_def)
qed

text \<open>
  A blank keyword, and a search that is answered with 404.
\<close>

theorem compare_appends_instruction_witness:
  "list_all py_isspace (u '' '')
   \<and> fst (compare_news_perspectives plain_text_parser example_netloc reversed_delay
            not_found_client (u '' '')) = ENTER_KEYWORD @ PERSPECTIVE_INSTRUCTION
   \<and> py_strip (u ''news'') \<noteq> []
   \<and> make_request_with_retry not_found_client (search_request (py_strip (u ''news''))) MAX_RETRIES =
       (Inl (HTTPStatusError 404 (u ''404'')), [Get (search_request (py_strip (u ''news'')))])
   \<and> fst (compare_news_perspectives plain_text_parser example_netloc reversed_delay
            not_found_client (u ''news'')) =
       CONTENT_SEARCH_ERROR @ u ''404'' @ PERSPECTIVE_INSTRUCTION"
proof -
  have blank: "list_all py_isspace (u '' '')"
    by (simp add: u_def py_isspace_def)
  have keyword: "py_strip (u ''news'') \<noteq> []"
    by (simp add: strip_news) (simp add: u_def)
  have fails: "make_request_with_retry not_found_client (search_request (py_strip (u ''news'')))
      MAX_RETRIES =
      (Inl (HTTPStatusError 404 (u ''404'')), [Get (search_request (py_strip (u ''news'')))])"
    by (simp add: make_request_with_retry_def retry_loop.simps MAX_RETRIES_def attempt_get_def
        not_found_client_def raise_for_status_def bare_response_def str_int_def str_nat.simps
        u_def)
  note compare = compare_appends_instruction
    [of plain_text_parser example_netloc reversed_delay not_found_client]
  have "fst (compare_news_perspectives plain_text_parser example_netloc reversed_delay
      not_found_client (u '' '')) = ENTER_KEYWORD @ PERSPECTIVE_INSTRUCTION"
    using compare [of "u '' ''"] blank by blast
  moreover have "fst (compare_news_perspectives plain_text_parser example_netloc reversed_delay
      not_found_client (u ''news'')) =
      CONTENT_SEARCH_ERROR @ exn_str (HTTPStatusError 404 (u ''404'')) @ PERSPECTIVE_INSTRUCTION"
    using compare [of "u ''news''"] keyword fails by blast
  ultimately show ?thesis
    using blank keyword fails by simp
qed

text \<open>
  \<open>search_news\<close> answers every malformed response with the specific message and a
  detail.
\<close>

lemma search_news_malformed:
  assumes "make_request_with_retry c (search_request (py_strip keyword)) MAX_RETRIES =
      (Inr (Some r), evs)"
    and "py_strip keyword \<noteq> []"
    and "(\<exists>m. json r = Inl (JSONDecodeError m)) \<or> (\<exists>ty. json r = Inr (NotDict ty))
         \<or> (\<exists>data. json r = Inr (Dict data) \<and> items data = None)"
  shows "\<exists>detail. fst (search_news netloc c keyword) = COULD_NOT_PROCESS @ detail"
  using assms strip_nonempty [of keyword]
  by (auto simp: search_news_def search_news_try_def search_news_decode_def)

text \<open>
  C9 at two malformed responses.  For a body that is not JSON, \<open>search_news\<close> returns
  the specific message, but \<open>search_news_with_content\<close> returns its catch-all with the
  text of the decoding error.  For an object without \<open>items\<close>, \<open>search_news\<close>
  returns the specific message, but \<open>search_news_with_content\<close> reports that there are
  no results.
\<close>

theorem search_news_with_content_malformed:
  "fst (search_news example_netloc (search_backend garbage_response) (u ''news'')) =
     COULD_NOT_PROCESS @ BAD_RESPONSE_FORMAT
   \<and> fst (search_news_with_content plain_text_parser example_netloc reversed_delay
            (search_backend garbage_response) (u ''news'')) =
       CONTENT_SEARCH_ERROR @ u ''Expecting value: line 1 column 1 (char 0)''
   \<and> fst (search_news example_netloc (search_backend no_items_response) (u ''news'')) =
       COULD_NOT_PROCESS @ ITEMS_NOT_FOUND
   \<and> fst (search_news_with_content plain_text_parser example_netloc reversed_delay
            (search_backend no_items_response) (u ''news'')) =
       no_results (u ''news'')"
proof -
  have g: "make_request_with_retry (search_backend garbage_response)
      (search_request (u ''news'')) MAX_RETRIES =
      (Inr (Some garbage_response), [Get (search_request (u ''news''))])"
    by (rule search_backend_fetch) (simp_all add: garbage_response_def json_response_def)
  have n: "make_request_with_retry (search_backend no_items_response)
      (search_request (u ''news'')) MAX_RETRIES =
      (Inr (Some no_items_response), [Get (search_request (u ''news''))])"
    by (rule search_backend_fetch) (simp_all add: no_items_response_def json_response_def)
  have k: "u ''news'' \<noteq> []"
    by (simp add: u_def)
  have jg: "json garbage_response =
      Inl (JSONDecodeError (u ''Expecting value: line 1 column 1 (char 0)''))"
    by (simp add: garbage_response_def json_response_def)
  have jn: "json no_items_response = Inr (Dict \<lparr>items = None, total = None\<rparr>)"
    by (simp add: no_items_response_def json_response_def)
  show ?thesis
    using k
    by (simp add: search_news_def search_news_try_def search_news_decode_def
        search_news_with_content_def search_news_with_content_try_def content_decode_def
        strip_news g n jg jn)
qed

end
